theory Spec2Isabelle
  imports Complex_Main
begin

section \<open>Scope\<close>

text \<open>
  A model of \<^verbatim>\<open>GoogleMapsEditor/ClientResources/googlemaps/Editor.js\<close>, the dijit widget
  that edits a pair of coordinates on a Google map: the value and its two formats, the
  marker, the suggestions of the Places API with their session token, the debounce timer
  and the teardown. The widget is a record, each method a function from the record to
  the record, each \<^verbatim>\<open>await\<close> a suspension that a later event resumes, and the browser's
  event loop a function \<open>step\<close> over events. Left out: the help dialog, the \<^verbatim>\<open>log\<close>
  helper, the loading of the provider's script tag, and the highlighting of a list item
  under the mouse.
\<close>

section \<open>JavaScript values\<close>

text \<open>
  The widget of \<^verbatim>\<open>Editor.js\<close> stores whatever the host form hands it: an object with
  \<^verbatim>\<open>latitude\<close>/\<^verbatim>\<open>longitude\<close> properties, a comma separated string, \<^verbatim>\<open>null\<close> or
  \<^verbatim>\<open>undefined\<close>. Values are therefore modelled dynamically typed. A number is \<^verbatim>\<open>NaN\<close>
  or a rational (every finite double is one; an infinity behaves like any other non-zero
  number in the code below and is not distinguished). A plain object is the association
  list of its own properties, the first binding of a name counting. Arrays as values are
  not modelled.
\<close>

datatype jsnum = NaN | Num rat

datatype jsval =
    JUndefined
  | JNull
  | JBool bool
  | JNumber jsnum
  | JString string
  | JObject "(string \<times> jsval) list"

text \<open>Truthiness, as \<^verbatim>\<open>if (v)\<close>, \<^verbatim>\<open>!v\<close> and \<^verbatim>\<open>v || w\<close> read it.\<close>

fun truthy :: "jsval \<Rightarrow> bool" where
  "truthy JUndefined = False"
| "truthy JNull = False"
| "truthy (JBool b) = b"
| "truthy (JNumber n) = (n \<noteq> NaN \<and> n \<noteq> Num 0)"
| "truthy (JString s) = (s \<noteq> [])"
| "truthy (JObject ps) = True"

fun typeof :: "jsval \<Rightarrow> string" where
  "typeof JUndefined = ''undefined''"
| "typeof JNull = ''object''"
| "typeof (JBool b) = ''boolean''"
| "typeof (JNumber n) = ''number''"
| "typeof (JString s) = ''string''"
| "typeof (JObject ps) = ''object''"

text \<open>
  Property read \<^verbatim>\<open>v.name\<close> on a value that is neither \<^verbatim>\<open>null\<close> nor \<^verbatim>\<open>undefined\<close> (the
  code reads properties only behind a truthiness test): an own property of an object,
  \<^verbatim>\<open>undefined\<close> otherwise.
\<close>

fun get_prop :: "jsval \<Rightarrow> string \<Rightarrow> jsval" where
  "get_prop (JObject ps) name = (case map_of ps name of Some v \<Rightarrow> v | None \<Rightarrow> JUndefined)"
| "get_prop v name = JUndefined"

text \<open>
  \<^verbatim>\<open>s.split(',')\<close>: the pieces between the separators; the empty string has one (empty)
  piece.
\<close>

fun split_str :: "char \<Rightarrow> string \<Rightarrow> string list" where
  "split_str sep [] = [[]]"
| "split_str sep (c # cs) =
     (if c = sep then [] # split_str sep cs
      else (case split_str sep cs of
              [] \<Rightarrow> [[c]]
            | p # ps \<Rightarrow> (c # p) # ps))"

text \<open>
  The library functions the widget calls but does not define are parameters of the model:
  the conversions between strings and numbers of the JavaScript runtime
  (\<^verbatim>\<open>Number(s)\<close> behind \<^verbatim>\<open>isNaN\<close>, \<^verbatim>\<open>parseFloat\<close>, \<^verbatim>\<open>parseInt\<close>, the printing of a number)
  and the constructor \<^verbatim>\<open>google.maps.LatLng\<close>. Every theorem holds for all of them.
\<close>

record latlng =
  lat :: jsval
  lng :: jsval

record js_runtime =
  StringToNumber :: "string \<Rightarrow> jsnum"
  parseFloat_str :: "string \<Rightarrow> jsnum"
  parseInt_str :: "string \<Rightarrow> jsnum"
  NumberToString :: "jsnum \<Rightarrow> string"
  LatLng :: "jsval \<Rightarrow> jsval \<Rightarrow> latlng"

fun ToNumber :: "js_runtime \<Rightarrow> jsval \<Rightarrow> jsnum" where
  "ToNumber rt JUndefined = NaN"
| "ToNumber rt JNull = Num 0"
| "ToNumber rt (JBool b) = Num (if b then 1 else 0)"
| "ToNumber rt (JNumber n) = n"
| "ToNumber rt (JString s) = StringToNumber rt s"
| "ToNumber rt (JObject ps) = NaN"

fun ToString :: "js_runtime \<Rightarrow> jsval \<Rightarrow> string" where
  "ToString rt JUndefined = ''undefined''"
| "ToString rt JNull = ''null''"
| "ToString rt (JBool b) = (if b then ''true'' else ''false'')"
| "ToString rt (JNumber n) = NumberToString rt n"
| "ToString rt (JString s) = s"
| "ToString rt (JObject ps) = ''[object Object]''"

definition isNaN :: "js_runtime \<Rightarrow> jsval \<Rightarrow> bool" where
  "isNaN rt v = (ToNumber rt v = NaN)"

definition parseFloat :: "js_runtime \<Rightarrow> jsval \<Rightarrow> jsnum" where
  "parseFloat rt v = parseFloat_str rt (ToString rt v)"

definition parseInt :: "js_runtime \<Rightarrow> jsval \<Rightarrow> jsnum" where
  "parseInt rt v = parseInt_str rt (ToString rt v)"

section \<open>The widget and its surroundings\<close>

record google_map =
  center :: latlng
  zoom :: jsval

text \<open>
  A suggestion of the Places API: the text shown in the list and the handle that
  \<^verbatim>\<open>toPlace()\<close> resolves.
\<close>

datatype suggestion = Suggestion string nat

fun placePrediction_text :: "suggestion \<Rightarrow> string" where
  "placePrediction_text (Suggestion t h) = t"

text \<open>The \<^verbatim>\<open>ul\<close> element of the suggestions: its \<^verbatim>\<open>display\<close> style and its items.\<close>

record dropdown =
  display :: string
  items :: "string list"

text \<open>
  An asynchronous function suspended at an \<^verbatim>\<open>await\<close>:
  \<^item> \<^verbatim>\<open>_fetchAutocompleteSuggestions(input)\<close> waiting for \<^verbatim>\<open>importLibrary('places')\<close>;
  \<^item> the same function waiting for the answer to its request (input, session token,
    origin);
  \<^item> \<^verbatim>\<open>_selectSuggestion\<close> waiting for \<^verbatim>\<open>place.fetchFields\<close>.
\<close>

datatype pending =
    AwaitLibrary string
  | AwaitSuggestions string nat "latlng option"
  | AwaitPlace suggestion

text \<open>The handles the widget registers with \<^verbatim>\<open>this.own(...)\<close>.\<close>

datatype own_handle =
    ScriptLoadedSignal
  | ClearHandler
  | RightClickHandler
  | KeyupHandler
  | DocumentClickHandler

text \<open>
  One record holds the widget (\<^verbatim>\<open>this\<close>) and what surrounds it.
  \<^item> Set by the host: \<open>required\<close>, \<open>readOnly\<close>, \<open>properties\<close> and \<open>metadata_properties\<close>
    (\<open>Some n\<close> when \<^verbatim>\<open>this.properties\<close>, respectively \<^verbatim>\<open>this.metadata.properties\<close>, is an
    array of length \<open>n\<close>), \<open>defaultCoordinates\<close>, \<open>defaultZoom\<close>.
  \<^item> Fields of the widget: \<open>stored_value\<close> is \<^verbatim>\<open>this.value\<close>, \<open>started\<close> is \<^verbatim>\<open>this._started\<close>
    (set by dijit's \<^verbatim>\<open>startup()\<close>), \<open>gmap\<close> is \<^verbatim>\<open>this._map\<close>, \<open>marker\<close> is \<^verbatim>\<open>this._marker\<close>
    with its position, \<open>sessionToken\<close> holds the identity of the token object, and so on
    under the source's names; \<open>None\<close> is \<^verbatim>\<open>null\<close>. \<open>searchTextbox_attached\<close> says that
    \<^verbatim>\<open>this.searchTextbox\<close>, an attach point of the template, is there: dijit deletes the
    attach points when the widget is destroyed.
  \<^item> The browser: the clock \<open>now\<close> in milliseconds, the pending timeouts (identifier,
    due time, the text the callback captured), the suspended asynchronous functions by
    request number, and counters for fresh identifiers. Timer identifiers start at 1,
    as the HTML standard requires.
  \<^item> What an observer sees: the arguments of \<^verbatim>\<open>this.onChange\<close>, the messages of
    \<^verbatim>\<open>console.error\<close>, and the arguments of the calls of
    \<^verbatim>\<open>_fetchAutocompleteSuggestions\<close> (\<open>fetch_calls\<close>).
\<close>

record editor =
  required :: bool
  readOnly :: bool
  properties :: "nat option"
  metadata_properties :: "nat option"
  defaultCoordinates :: jsval
  defaultZoom :: jsval
  stored_value :: jsval
  started :: bool
  textbox_value :: jsval
  searchTextbox_value :: string
  searchTextbox_disabled :: bool
  searchTextbox_attached :: bool
  placesLibrary :: bool
  gmap :: "google_map option"
  marker :: "latlng option"
  sessionToken :: "nat option"
  suggestions :: "suggestion list option"
  suggestionsDropdown :: "dropdown option"
  selectedSuggestionIndex :: int
  typingTimer :: "nat option"
  owned :: "own_handle list"
  now :: nat
  timers :: "(nat \<times> nat \<times> string) list"
  next_timer :: nat
  in_flight :: "(nat \<times> pending) list"
  next_request :: nat
  next_token :: nat
  onChange_log :: "jsval list"
  console_errors :: "string list"
  fetch_calls :: "string list"

section \<open>Coordinates\<close>

text \<open>
  \<^verbatim>\<open>_isComplexType(value)\<close>, lines 205-221. Called without an argument, \<open>v\<close> is
  \<^verbatim>\<open>undefined\<close> and \<^verbatim>\<open>this.value\<close> is examined.
\<close>

definition isComplexType :: "editor \<Rightarrow> jsval \<Rightarrow> bool" where
  "isComplexType w v =
     (let valueToCheck = (if truthy v then v else stored_value w) in
      if truthy valueToCheck \<and> typeof valueToCheck = ''object'' then True
      else (case properties w of
              Some n \<Rightarrow> n > 0
            | None \<Rightarrow>
                (case metadata_properties w of
                   Some n \<Rightarrow> n > 0
                 | None \<Rightarrow> False)))"

text \<open>\<^verbatim>\<open>_hasCoordinates()\<close>, lines 227-245.\<close>

definition hasCoordinates :: "js_runtime \<Rightarrow> editor \<Rightarrow> bool" where
  "hasCoordinates rt w =
     (if \<not> truthy (stored_value w) then False
      else if isComplexType w JUndefined then
        (let latitude = get_prop (stored_value w) ''latitude'';
             longitude = get_prop (stored_value w) ''longitude''
         in latitude \<noteq> JUndefined \<and>
            longitude \<noteq> JUndefined \<and>
            longitude \<noteq> JNull \<and>
            latitude \<noteq> JNull \<and>
            \<not> isNaN rt longitude \<and>
            \<not> isNaN rt latitude \<and>
            longitude \<noteq> JNumber (Num 0) \<and>
            latitude \<noteq> JNumber (Num 0))
      else (case stored_value w of
              JString s \<Rightarrow> length (split_str CHR '','' s) = 2
            | _ \<Rightarrow> False))"

text \<open>\<^verbatim>\<open>isValid()\<close>, lines 192-197.\<close>

definition isValid :: "js_runtime \<Rightarrow> editor \<Rightarrow> bool" where
  "isValid rt w = (if required w then hasCoordinates rt w else True)"

section \<open>The map and the marker\<close>

text \<open>
  \<^verbatim>\<open>_setMapLocation(location, zoom, center, skipMarker)\<close>, lines 696-719. The marker is
  created on first use and then positioned; \<open>zoom\<close> is \<^verbatim>\<open>null\<close> or a number.
\<close>

definition setMapLocation :: "editor \<Rightarrow> latlng \<Rightarrow> jsval \<Rightarrow> bool \<Rightarrow> bool \<Rightarrow> editor" where
  "setMapLocation w location zoom_arg center_arg skipMarker =
     (case gmap w of
        None \<Rightarrow> w
      | Some m \<Rightarrow>
          (let w1 = (if \<not> skipMarker then w\<lparr>marker := Some location\<rparr> else w);
               m1 = (if center_arg then m\<lparr>center := location\<rparr> else m);
               m2 = (if truthy zoom_arg then m1\<lparr>zoom := zoom_arg\<rparr> else m1)
           in w1\<lparr>gmap := Some m2\<rparr>))"

text \<open>\<^verbatim>\<open>_refreshMarkerLocation()\<close>, lines 726-755.\<close>

definition refreshMarkerLocation :: "js_runtime \<Rightarrow> editor \<Rightarrow> editor" where
  "refreshMarkerLocation rt w =
     (if gmap w = None then w
      else if \<not> hasCoordinates rt w then
        setMapLocation w
          (LatLng rt (get_prop (defaultCoordinates w) ''latitude'')
                     (get_prop (defaultCoordinates w) ''longitude''))
          JNull True True
      else
        (let (latitude, longitude) =
               (if isComplexType w JUndefined then
                  (get_prop (stored_value w) ''latitude'',
                   get_prop (stored_value w) ''longitude'')
                else
                  (case stored_value w of
                     JString s \<Rightarrow>
                       (let coordinates = split_str CHR '','' s in
                        (JNumber (parseFloat rt (JString (coordinates ! 0))),
                         JNumber (parseFloat rt (JString (coordinates ! 1)))))
                   | _ \<Rightarrow> (JUndefined, JUndefined)))
         in setMapLocation w (LatLng rt latitude longitude) JNull True False))"

section \<open>Reading and writing the value\<close>

text \<open>
  \<^verbatim>\<open>_setValueAttr(newValue)\<close>, lines 174-185, which dijit runs for
  \<^verbatim>\<open>this.set("value", newValue)\<close>. The inherited setter
  (\<^verbatim>\<open>this.inherited(arguments)\<close>, dijit's form value mixin) stores the value in
  \<^verbatim>\<open>this.value\<close>.
\<close>

definition setValueAttr :: "js_runtime \<Rightarrow> editor \<Rightarrow> jsval \<Rightarrow> editor" where
  "setValueAttr rt w newValue =
     (let w1 = w\<lparr>stored_value := newValue\<rparr>;
          w2 = w1\<lparr>textbox_value := (if truthy newValue then newValue else JString [])\<rparr>;
          w3 = (if marker w2 = None then refreshMarkerLocation rt w2 else w2)
      in if isComplexType w3 JUndefined
         then w3\<lparr>onChange_log := onChange_log w3 @ [newValue]\<rparr>
         else w3)"

text \<open>
  \<^verbatim>\<open>_setCoordinatesValue(location)\<close>, lines 650-686; \<open>None\<close> is the call with \<^verbatim>\<open>null\<close>.
  The accessors \<^verbatim>\<open>location.lng()\<close> and \<^verbatim>\<open>location.lat()\<close> are read only past the
  \<^verbatim>\<open>_started\<close> guard.
\<close>

definition missing_coordinate_message :: string where
  "missing_coordinate_message =
     ''[GoogleMapsEditor] Unexpectedly missing longitude and/or latitude coordinate''"

definition setCoordinatesValue :: "js_runtime \<Rightarrow> editor \<Rightarrow> latlng option \<Rightarrow> editor" where
  "setCoordinatesValue rt w location =
     (if \<not> started w then w
      else (case location of
        None \<Rightarrow>
          setValueAttr rt w
            (if isComplexType w JUndefined
             then JObject [(''latitude'', JNull), (''longitude'', JNull)]
             else JNull)
      | Some l \<Rightarrow>
          (let longitude = lng l; latitude = lat l in
           if longitude = JUndefined \<or> latitude = JUndefined
           then w\<lparr>console_errors := console_errors w @ [missing_coordinate_message]\<rparr>
           else setValueAttr rt w
             (if isComplexType w JUndefined
              then JObject [(''latitude'', JNumber (parseFloat rt latitude)),
                            (''longitude'', JNumber (parseFloat rt longitude))]
              else JString (ToString rt latitude @ '','' @ ToString rt longitude)))))"

text \<open>\<^verbatim>\<open>_hideSuggestionsDropdown()\<close>, lines 475-480.\<close>

definition hideSuggestionsDropdown :: "editor \<Rightarrow> editor" where
  "hideSuggestionsDropdown w =
     (let w1 = (case suggestionsDropdown w of
                  None \<Rightarrow> w
                | Some d \<Rightarrow> w\<lparr>suggestionsDropdown := Some (d\<lparr>display := ''none''\<rparr>)\<rparr>)
      in w1\<lparr>selectedSuggestionIndex := - 1\<rparr>)"

text \<open>\<^verbatim>\<open>_clearCoordinates()\<close>, lines 250-260: the click handler of the clear icon.\<close>

definition clearCoordinates :: "js_runtime \<Rightarrow> editor \<Rightarrow> editor" where
  "clearCoordinates rt w =
     (let w1 = w\<lparr>searchTextbox_value := []\<rparr>;
          w2 = hideSuggestionsDropdown w1;
          w3 = (if marker w2 \<noteq> None then w2\<lparr>marker := None\<rparr> else w2)
      in setCoordinatesValue rt w3 None)"

section \<open>The suggestions\<close>

text \<open>
  How a method ends: it returns, or it throws; either way with the state it has written
  so far.
\<close>

datatype completion = Returned editor | Threw editor

text \<open>
  \<^verbatim>\<open>_createSuggestionsDropdown()\<close>, lines 420-429. Line 423 assigns the new list to
  \<^verbatim>\<open>this._suggestionsDropdown\<close>; line 428 places it next to
  \<^verbatim>\<open>this.searchTextbox.domNode\<close>, which is a TypeError once the search box is detached.
\<close>

definition createSuggestionsDropdown :: "editor \<Rightarrow> completion" where
  "createSuggestionsDropdown w =
     (if suggestionsDropdown w \<noteq> None then Returned w
      else (let w1 = w\<lparr>suggestionsDropdown := Some \<lparr>display = ''none'', items = []\<rparr>\<rparr>
            in if searchTextbox_attached w1 then Returned w1 else Threw w1))"

text \<open>
  \<^verbatim>\<open>_showSuggestionsDropdown(suggestions)\<close>, lines 436-469. An exception of line 438
  leaves the method at once.
\<close>

definition showSuggestionsDropdown :: "editor \<Rightarrow> suggestion list \<Rightarrow> completion" where
  "showSuggestionsDropdown w ss =
     (case (if suggestionsDropdown w = None then createSuggestionsDropdown w else Returned w) of
        Threw w1 \<Rightarrow> Threw w1
      | Returned w1 \<Rightarrow>
          (let w2 = (case suggestionsDropdown w1 of
                       None \<Rightarrow> w1
                     | Some d \<Rightarrow> w1\<lparr>suggestionsDropdown := Some (d\<lparr>items := []\<rparr>)\<rparr>);
               w3 = w2\<lparr>selectedSuggestionIndex := - 1\<rparr>
           in if ss = [] then Returned (hideSuggestionsDropdown w3)
              else (case suggestionsDropdown w3 of
                      None \<Rightarrow> Returned w3
                    | Some d \<Rightarrow>
                        Returned
                          (w3\<lparr>suggestionsDropdown :=
                               Some (d\<lparr>items := items d @ map placePrediction_text ss,
                                       display := ''block''\<rparr>)\<rparr>))))"

text \<open>
  A function that reaches an \<^verbatim>\<open>await\<close> on a promise of the provider is parked under a
  fresh request number until the event that settles the promise arrives.
\<close>

definition suspend :: "editor \<Rightarrow> pending \<Rightarrow> editor" where
  "suspend w p =
     w\<lparr>in_flight := in_flight w @ [(next_request w, p)],
       next_request := Suc (next_request w)\<rparr>"

definition settle :: "editor \<Rightarrow> nat \<Rightarrow> editor" where
  "settle w rid = w\<lparr>in_flight := filter (\<lambda>(r, p). r \<noteq> rid) (in_flight w)\<rparr>"

text \<open>
  \<^verbatim>\<open>_fetchAutocompleteSuggestions\<close>, lines 572-588: from the places library to the
  request. The session token is created when there is none; the origin is the centre of
  the map when there is a map.
\<close>

definition requestSuggestions :: "editor \<Rightarrow> string \<Rightarrow> editor" where
  "requestSuggestions w input =
     (let (t, w1) =
            (case sessionToken w of
               Some t \<Rightarrow> (t, w)
             | None \<Rightarrow>
                 (next_token w,
                  w\<lparr>sessionToken := Some (next_token w), next_token := Suc (next_token w)\<rparr>))
      in suspend w1 (AwaitSuggestions input t (map_option center (gmap w1))))"

text \<open>
  \<^verbatim>\<open>_fetchAutocompleteSuggestions(input)\<close>, lines 564-571, with \<^verbatim>\<open>_getPlacesLibrary\<close>
  (lines 549-556) inlined. With the library cached, the awaited promise is already
  resolved: the function continues in a microtask, before any other event, so the
  request is sent within the same step.
\<close>

definition fetchAutocompleteSuggestions :: "editor \<Rightarrow> string \<Rightarrow> editor" where
  "fetchAutocompleteSuggestions w input =
     (let w0 = w\<lparr>fetch_calls := fetch_calls w @ [input]\<rparr> in
      if input = [] then hideSuggestionsDropdown w0
      else if placesLibrary w0 then requestSuggestions w0 input
      else suspend w0 (AwaitLibrary input))"

text \<open>
  The continuations of \<^verbatim>\<open>_fetchAutocompleteSuggestions\<close>: lines 554 and 572-588 once
  the library is there, lines 590-591 once the suggestions are there, and the \<^verbatim>\<open>catch\<close>
  of lines 593-594, which is entered when either promise is rejected and when
  \<^verbatim>\<open>_showSuggestionsDropdown\<close> throws. None of them asks whether the widget still exists
  or whether a newer request was made. On a destroyed widget line 590 has assigned the
  suggestions before line 591 fails on the detached search box.
\<close>

definition libraryLoaded :: "editor \<Rightarrow> string \<Rightarrow> editor" where
  "libraryLoaded w input = requestSuggestions (w\<lparr>placesLibrary := True\<rparr>) input"

definition fetchFailed :: "editor \<Rightarrow> editor" where
  "fetchFailed w =
     w\<lparr>console_errors := console_errors w @ [''[GoogleMapsEditor] Error fetching suggestions:'']\<rparr>"

definition suggestionsArrived :: "editor \<Rightarrow> suggestion list \<Rightarrow> editor" where
  "suggestionsArrived w ss =
     (case showSuggestionsDropdown (w\<lparr>suggestions := Some ss\<rparr>) ss of
        Returned w' \<Rightarrow> w'
      | Threw w' \<Rightarrow> fetchFailed w')"

text \<open>
  \<^verbatim>\<open>_selectSuggestion(index)\<close>, lines 507-541: up to the \<^verbatim>\<open>await\<close> of
  \<^verbatim>\<open>place.fetchFields\<close>, then from there with \<^verbatim>\<open>place.location\<close> (\<open>None\<close> when the place
  has none), and the \<^verbatim>\<open>catch\<close> for a rejected promise. The writes of a commit to the two
  text boxes (lines 176 and 535) are modelled as on a widget whose template is
  attached; what is proved of the commit is about the stored value and \<^verbatim>\<open>onChange\<close>
  before startup, which those writes do not touch.
\<close>

definition selectSuggestion :: "editor \<Rightarrow> int \<Rightarrow> editor" where
  "selectSuggestion w index =
     (case suggestions w of
        None \<Rightarrow> w
      | Some ss \<Rightarrow>
          if index < 0 \<or> index \<ge> int (length ss) then w
          else suspend w (AwaitPlace (ss ! nat index)))"

definition placeFetched :: "js_runtime \<Rightarrow> editor \<Rightarrow> latlng option \<Rightarrow> editor" where
  "placeFetched rt w place_location =
     (case place_location of
        None \<Rightarrow> w
      | Some pl \<Rightarrow>
          (let location = LatLng rt (lat pl) (lng pl);
               w1 = setMapLocation w location (JNumber (Num 15)) True False;
               w2 = setCoordinatesValue rt w1 (Some location);
               w3 = w2\<lparr>searchTextbox_value := []\<rparr>
           in hideSuggestionsDropdown w3))"

definition placeFailed :: "editor \<Rightarrow> editor" where
  "placeFailed w =
     w\<lparr>console_errors := console_errors w @ [''[GoogleMapsEditor] Error selecting place:'']\<rparr>"

section \<open>The debounce timer\<close>

definition typingDelay :: nat where
  "typingDelay = 200"

definition setTimeout :: "editor \<Rightarrow> string \<Rightarrow> nat \<Rightarrow> nat \<times> editor" where
  "setTimeout w captured delay =
     (next_timer w,
      w\<lparr>timers := timers w @ [(next_timer w, now w + delay, captured)],
        next_timer := Suc (next_timer w)\<rparr>)"

definition clearTimeout :: "editor \<Rightarrow> nat \<Rightarrow> editor" where
  "clearTimeout w t = w\<lparr>timers := filter (\<lambda>(i, due, v). i \<noteq> t) (timers w)\<rparr>"

text \<open>
  The \<^verbatim>\<open>keyup\<close> handler of \<^verbatim>\<open>_setupCustomAutocomplete\<close>, lines 608-619; \<open>v\<close> is
  \<^verbatim>\<open>e.target.value\<close>, which the timeout's callback captures.
\<close>

definition keyupHandler :: "editor \<Rightarrow> string \<Rightarrow> editor" where
  "keyupHandler w v =
     (let w1 = (case typingTimer w of
                  None \<Rightarrow> w
                | Some t \<Rightarrow> if t \<noteq> 0 then clearTimeout w t else w);
          (t', w2) = setTimeout w1 v typingDelay
      in w2\<lparr>typingTimer := Some t'\<rparr>)"

text \<open>
  Time passes: the clock moves on by \<open>d\<close> milliseconds and the timeouts that are due by
  then run their callback, \<^verbatim>\<open>_fetchAutocompleteSuggestions(value)\<close> (line 616), oldest
  first.
\<close>

definition advance :: "editor \<Rightarrow> nat \<Rightarrow> editor" where
  "advance w d =
     (let t = now w + d;
          due = filter (\<lambda>(i, due, v). due \<le> t) (timers w);
          w1 = w\<lparr>now := t, timers := filter (\<lambda>(i, due, v). \<not> due \<le> t) (timers w)\<rparr>
      in fold (\<lambda>(i, due, v). \<lambda>w'. fetchAutocompleteSuggestions w' v) due w1)"

section \<open>The life of the widget\<close>

text \<open>
  The widget once \<^verbatim>\<open>postCreate\<close> (lines 800-805) has run, from what the host configures:
  the fields carry the defaults of the declaration (lines 60-158), the value is dijit's
  default for a form widget (the empty string) until the host assigns one, the clear icon
  and the script-loaded signal are wired and owned.
\<close>

definition postCreate ::
  "bool \<Rightarrow> bool \<Rightarrow> nat option \<Rightarrow> nat option \<Rightarrow> jsval \<Rightarrow> jsval \<Rightarrow> editor" where
  "postCreate req ro props meta_props coords zoom0 =
     \<lparr>required = req, readOnly = ro, properties = props, metadata_properties = meta_props,
      defaultCoordinates = coords, defaultZoom = zoom0,
      stored_value = JString [], started = False, textbox_value = JString [],
      searchTextbox_value = [], searchTextbox_disabled = False,
      searchTextbox_attached = True, placesLibrary = False,
      gmap = None, marker = None, sessionToken = None, suggestions = None,
      suggestionsDropdown = None, selectedSuggestionIndex = - 1, typingTimer = None,
      owned = [ClearHandler, ScriptLoadedSignal],
      now = 0, timers = [], next_timer = 1, in_flight = [], next_request = 0,
      next_token = 0, onChange_log = [], console_errors = [], fetch_calls = []\<rparr>"

text \<open>\<^verbatim>\<open>_setupCustomAutocomplete()\<close>, lines 603-640: the handlers it registers and owns.\<close>

definition setupCustomAutocomplete :: "editor \<Rightarrow> editor" where
  "setupCustomAutocomplete w = w\<lparr>owned := owned w @ [KeyupHandler, DocumentClickHandler]\<rparr>"

text \<open>\<^verbatim>\<open>_createGoogleMapsElement()\<close>, lines 365-412.\<close>

definition createGoogleMapsElement :: "js_runtime \<Rightarrow> editor \<Rightarrow> editor" where
  "createGoogleMapsElement rt w =
     (let initialCoordinates =
            LatLng rt (get_prop (defaultCoordinates w) ''latitude'')
                      (get_prop (defaultCoordinates w) ''longitude'');
          w1 = w\<lparr>gmap := Some \<lparr>center = initialCoordinates,
                                 zoom = JNumber (parseInt rt (defaultZoom w))\<rparr>\<rparr>
      in if \<not> readOnly w1
         then setupCustomAutocomplete (w1\<lparr>owned := owned w1 @ [RightClickHandler]\<rparr>)
         else w1\<lparr>searchTextbox_disabled := True\<rparr>)"

text \<open>The \<^verbatim>\<open>rightclick\<close> listener of the map, lines 397-400.\<close>

definition rightClickHandler :: "js_runtime \<Rightarrow> editor \<Rightarrow> latlng \<Rightarrow> editor" where
  "rightClickHandler rt w latLng =
     setCoordinatesValue rt (setMapLocation w latLng JNull False False) (Some latLng)"

text \<open>The listener of \<^verbatim>\<open>googleMapsScriptLoaded\<close>, lines 763-767; it removes itself.\<close>

definition scriptLoadedHandler :: "js_runtime \<Rightarrow> editor \<Rightarrow> editor" where
  "scriptLoadedHandler rt w =
     (let w1 = createGoogleMapsElement rt w;
          w2 = refreshMarkerLocation rt w1
      in w2\<lparr>owned := removeAll ScriptLoadedSignal (owned w2)\<rparr>)"

text \<open>
  \<^verbatim>\<open>destroy()\<close>, lines 778-794. The inherited \<^verbatim>\<open>destroy\<close> of dijit (line 793) removes
  every handle that was given to \<^verbatim>\<open>this.own\<close> and detaches the template, the search box
  with it. The widget keeps no flag of its own that it is gone, and none of its methods
  asks.
\<close>

definition destroy :: "editor \<Rightarrow> editor" where
  "destroy w =
     (let w1 = (case typingTimer w of
                  None \<Rightarrow> w
                | Some t \<Rightarrow> if t \<noteq> 0 then (clearTimeout w t)\<lparr>typingTimer := None\<rparr> else w);
          w2 = (if suggestionsDropdown w1 \<noteq> None then w1\<lparr>suggestionsDropdown := None\<rparr> else w1);
          w3 = w2\<lparr>sessionToken := None, suggestions := None, placesLibrary := False\<rparr>
      in w3\<lparr>owned := [], searchTextbox_attached := False\<rparr>)"

section \<open>The event loop\<close>

text \<open>
  JavaScript runs one task at a time. An event is a task: the host starts the widget or
  assigns a value, the script of the map provider has loaded, the user types, clicks the
  clear icon, right-clicks the map, clicks the item of a suggestion or clicks somewhere
  in the document (\<open>True\<close>: outside the search box and the list), time passes, a promise
  of the provider is fulfilled or rejected, the host destroys the widget. A listener
  runs only while its handle is owned, a continuation only for a request in flight.
\<close>

datatype event =
    Startup
  | SetValue jsval
  | ScriptLoaded
  | Keyup string
  | Advance nat
  | ClearClick
  | RightClick latlng
  | SuggestionClick nat
  | DocumentClick bool
  | LibraryLoaded nat
  | LibraryFailed nat
  | SuggestionsArrived nat "suggestion list"
  | SuggestionsFailed nat
  | PlaceFetched nat "latlng option"
  | PlaceFailed nat
  | Destroy

fun step :: "js_runtime \<Rightarrow> editor \<Rightarrow> event \<Rightarrow> editor" where
  "step rt w Startup = w\<lparr>started := True\<rparr>"
| "step rt w (SetValue v) = setValueAttr rt w v"
| "step rt w ScriptLoaded =
     (if ScriptLoadedSignal \<in> set (owned w) then scriptLoadedHandler rt w else w)"
| "step rt w (Keyup v) =
     (if KeyupHandler \<in> set (owned w) then keyupHandler w v else w)"
| "step rt w (Advance d) = advance w d"
| "step rt w ClearClick =
     (if ClearHandler \<in> set (owned w) then clearCoordinates rt w else w)"
| "step rt w (RightClick l) =
     (if RightClickHandler \<in> set (owned w) then rightClickHandler rt w l else w)"
| "step rt w (SuggestionClick i) =
     (case suggestionsDropdown w of
        None \<Rightarrow> w
      | Some d \<Rightarrow>
          if display d = ''block'' \<and> i < length (items d)
          then selectSuggestion w (int i) else w)"
| "step rt w (DocumentClick outside) =
     (if DocumentClickHandler \<in> set (owned w) \<and> outside \<and> suggestionsDropdown w \<noteq> None
      then hideSuggestionsDropdown w else w)"
| "step rt w (LibraryLoaded rid) =
     (case map_of (in_flight w) rid of
        Some (AwaitLibrary input) \<Rightarrow> libraryLoaded (settle w rid) input
      | _ \<Rightarrow> w)"
| "step rt w (LibraryFailed rid) =
     (case map_of (in_flight w) rid of
        Some (AwaitLibrary input) \<Rightarrow> fetchFailed (settle w rid)
      | _ \<Rightarrow> w)"
| "step rt w (SuggestionsArrived rid ss) =
     (case map_of (in_flight w) rid of
        Some (AwaitSuggestions input t origin) \<Rightarrow> suggestionsArrived (settle w rid) ss
      | _ \<Rightarrow> w)"
| "step rt w (SuggestionsFailed rid) =
     (case map_of (in_flight w) rid of
        Some (AwaitSuggestions input t origin) \<Rightarrow> fetchFailed (settle w rid)
      | _ \<Rightarrow> w)"
| "step rt w (PlaceFetched rid place_location) =
     (case map_of (in_flight w) rid of
        Some (AwaitPlace s) \<Rightarrow> placeFetched rt (settle w rid) place_location
      | _ \<Rightarrow> w)"
| "step rt w (PlaceFailed rid) =
     (case map_of (in_flight w) rid of
        Some (AwaitPlace s) \<Rightarrow> placeFailed (settle w rid)
      | _ \<Rightarrow> w)"
| "step rt w Destroy = destroy w"

fun run :: "js_runtime \<Rightarrow> editor \<Rightarrow> event list \<Rightarrow> editor" where
  "run rt w [] = w"
| "run rt w (e # es) = run rt (step rt w e) es"

section \<open>Notions used to state the properties\<close>

text \<open>
  The debounce timer is a single slot: at most one timeout is pending, and it is the one
  whose identifier \<^verbatim>\<open>this._typingTimer\<close> holds. Identifiers are not zero, so the test
  \<^verbatim>\<open>if (this._typingTimer)\<close> sees every timer that was set.
\<close>

definition timer_inv :: "editor \<Rightarrow> bool" where
  "timer_inv w =
     (next_timer w \<noteq> 0 \<and>
      (case typingTimer w of
         None \<Rightarrow> timers w = []
       | Some t \<Rightarrow>
           t \<noteq> 0 \<and>
           (case timers w of
              [] \<Rightarrow> True
            | (i, due, v) # rest \<Rightarrow> i = t \<and> rest = [])))"

text \<open>
  A burst of keystrokes: the first leaves the text \<open>k\<close> in the search box, each further
  one comes \<open>gap\<close> milliseconds after the one before and leaves the text \<open>k'\<close>.
\<close>

fun type_burst :: "string \<Rightarrow> (nat \<times> string) list \<Rightarrow> event list" where
  "type_burst k [] = [Keyup k]"
| "type_burst k ((gap, k') # rest) = Keyup k # Advance gap # type_burst k' rest"

fun last_text :: "string \<Rightarrow> (nat \<times> string) list \<Rightarrow> string" where
  "last_text k [] = k"
| "last_text k ((gap, k') # rest) = last_text k' rest"

text \<open>
  The events whose handlers assign \<^verbatim>\<open>this._suggestions\<close>: the arrival of a response
  (line 590) and \<^verbatim>\<open>destroy\<close> (line 790).
\<close>

fun replaces_suggestions :: "event \<Rightarrow> bool" where
  "replaces_suggestions (SuggestionsArrived rid ss) = True"
| "replaces_suggestions Destroy = True"
| "replaces_suggestions e = False"

section \<open>Concrete editors\<close>

text \<open>
  The closed examples run on a runtime that takes no string for a number and whose
  \<^verbatim>\<open>LatLng\<close> hands back the coordinates it was built from. None of the facts stated
  about the examples looks at a number that was parsed or printed. The two editors are
  required, writable and centred on (59, 18): one has no property list (the delimited
  string format), the other has two properties (the structured format).
\<close>

definition sample_runtime :: js_runtime where
  "sample_runtime =
     \<lparr>StringToNumber = (\<lambda>s. NaN), parseFloat_str = (\<lambda>s. NaN), parseInt_str = (\<lambda>s. NaN),
      NumberToString = (\<lambda>n. ''NaN''), LatLng = (\<lambda>a b. \<lparr>lat = a, lng = b\<rparr>)\<rparr>"

definition sample_coordinates :: jsval where
  "sample_coordinates =
     JObject [(''latitude'', JNumber (Num 59)), (''longitude'', JNumber (Num 18))]"

definition delimited_editor :: editor where
  "delimited_editor = postCreate True False None None sample_coordinates (JString ''10'')"

definition structured_editor :: editor where
  "structured_editor = postCreate True False (Some 2) None sample_coordinates (JString ''10'')"

section \<open>What each function leaves alone\<close>

text \<open>
  The type test and the coordinate test read three fields only; every function below is
  listed with the fields it does not write.
\<close>

lemma isComplexType_cong:
  "stored_value w' = stored_value w \<Longrightarrow> properties w' = properties w \<Longrightarrow>
   metadata_properties w' = metadata_properties w \<Longrightarrow>
   isComplexType w' v = isComplexType w v"
  by (simp add: isComplexType_def split: option.splits)

lemma hasCoordinates_cong:
  "stored_value w' = stored_value w \<Longrightarrow> properties w' = properties w \<Longrightarrow>
   metadata_properties w' = metadata_properties w \<Longrightarrow>
   hasCoordinates rt w' = hasCoordinates rt w"
  by (simp add: hasCoordinates_def isComplexType_cong [of w' w])

lemma setMapLocation_frame [simp]:
  "stored_value (setMapLocation w l z c s) = stored_value w"
  "started (setMapLocation w l z c s) = started w"
  "properties (setMapLocation w l z c s) = properties w"
  "metadata_properties (setMapLocation w l z c s) = metadata_properties w"
  "textbox_value (setMapLocation w l z c s) = textbox_value w"
  "onChange_log (setMapLocation w l z c s) = onChange_log w"
  "console_errors (setMapLocation w l z c s) = console_errors w"
  "timers (setMapLocation w l z c s) = timers w"
  "typingTimer (setMapLocation w l z c s) = typingTimer w"
  "next_timer (setMapLocation w l z c s) = next_timer w"
  "owned (setMapLocation w l z c s) = owned w"
  "fetch_calls (setMapLocation w l z c s) = fetch_calls w"
  "suggestions (setMapLocation w l z c s) = suggestions w"
  "sessionToken (setMapLocation w l z c s) = sessionToken w"
  by (simp_all add: setMapLocation_def Let_def split: option.splits)

lemma marker_setMapLocation:
  "marker (setMapLocation w l z c s) = (if gmap w \<noteq> None \<and> \<not> s then Some l else marker w)"
  by (simp add: setMapLocation_def Let_def split: option.splits)

lemma gmap_setMapLocation [simp]:
  "gmap (setMapLocation w l z c s) = None \<longleftrightarrow> gmap w = None"
  by (simp add: setMapLocation_def Let_def split: option.splits)

lemma isComplexType_setMapLocation [simp]:
  "isComplexType (setMapLocation w l z c s) v = isComplexType w v"
  by (rule isComplexType_cong) simp_all

lemma refreshMarkerLocation_frame [simp]:
  "stored_value (refreshMarkerLocation rt w) = stored_value w"
  "started (refreshMarkerLocation rt w) = started w"
  "properties (refreshMarkerLocation rt w) = properties w"
  "metadata_properties (refreshMarkerLocation rt w) = metadata_properties w"
  "textbox_value (refreshMarkerLocation rt w) = textbox_value w"
  "onChange_log (refreshMarkerLocation rt w) = onChange_log w"
  "console_errors (refreshMarkerLocation rt w) = console_errors w"
  "timers (refreshMarkerLocation rt w) = timers w"
  "typingTimer (refreshMarkerLocation rt w) = typingTimer w"
  "next_timer (refreshMarkerLocation rt w) = next_timer w"
  "owned (refreshMarkerLocation rt w) = owned w"
  "fetch_calls (refreshMarkerLocation rt w) = fetch_calls w"
  "suggestions (refreshMarkerLocation rt w) = suggestions w"
  "sessionToken (refreshMarkerLocation rt w) = sessionToken w"
  by (simp_all add: refreshMarkerLocation_def split: prod.splits)

lemma isComplexType_refreshMarkerLocation [simp]:
  "isComplexType (refreshMarkerLocation rt w) v = isComplexType w v"
  by (rule isComplexType_cong) simp_all

lemma marker_refresh_invalid:
  "\<not> hasCoordinates rt w \<Longrightarrow> marker (refreshMarkerLocation rt w) = marker w"
  by (simp add: refreshMarkerLocation_def marker_setMapLocation)

lemma marker_refresh_exists:
  "marker (refreshMarkerLocation rt w) \<noteq> None \<longleftrightarrow>
     (gmap w \<noteq> None \<and> hasCoordinates rt w) \<or> marker w \<noteq> None"
  by (auto simp add: refreshMarkerLocation_def marker_setMapLocation split: prod.splits)

lemma setValueAttr_frame [simp]:
  "stored_value (setValueAttr rt w v) = v"
  "textbox_value (setValueAttr rt w v) = (if truthy v then v else JString [])"
  "started (setValueAttr rt w v) = started w"
  "properties (setValueAttr rt w v) = properties w"
  "metadata_properties (setValueAttr rt w v) = metadata_properties w"
  "console_errors (setValueAttr rt w v) = console_errors w"
  "timers (setValueAttr rt w v) = timers w"
  "typingTimer (setValueAttr rt w v) = typingTimer w"
  "next_timer (setValueAttr rt w v) = next_timer w"
  "owned (setValueAttr rt w v) = owned w"
  "fetch_calls (setValueAttr rt w v) = fetch_calls w"
  "suggestions (setValueAttr rt w v) = suggestions w"
  "sessionToken (setValueAttr rt w v) = sessionToken w"
  by (simp_all add: setValueAttr_def Let_def)

lemma marker_setValueAttr_invalid:
  "marker w = None \<Longrightarrow> \<not> hasCoordinates rt (w\<lparr>stored_value := v\<rparr>) \<Longrightarrow>
   marker (setValueAttr rt w v) = None"
proof -
  assume m: "marker w = None" and inv: "\<not> hasCoordinates rt (w\<lparr>stored_value := v\<rparr>)"
  let ?w2 = "w\<lparr>stored_value := v, textbox_value := (if truthy v then v else JString [])\<rparr>"
  have "hasCoordinates rt ?w2 = hasCoordinates rt (w\<lparr>stored_value := v\<rparr>)"
    by (rule hasCoordinates_cong) simp_all
  with inv have "marker (refreshMarkerLocation rt ?w2) = marker ?w2"
    by (simp add: marker_refresh_invalid)
  with m show ?thesis
    by (simp add: setValueAttr_def Let_def)
qed

lemma setCoordinatesValue_frame [simp]:
  "started (setCoordinatesValue rt w loc) = started w"
  "properties (setCoordinatesValue rt w loc) = properties w"
  "metadata_properties (setCoordinatesValue rt w loc) = metadata_properties w"
  "timers (setCoordinatesValue rt w loc) = timers w"
  "typingTimer (setCoordinatesValue rt w loc) = typingTimer w"
  "next_timer (setCoordinatesValue rt w loc) = next_timer w"
  "owned (setCoordinatesValue rt w loc) = owned w"
  "fetch_calls (setCoordinatesValue rt w loc) = fetch_calls w"
  "suggestions (setCoordinatesValue rt w loc) = suggestions w"
  "sessionToken (setCoordinatesValue rt w loc) = sessionToken w"
  by (simp_all add: setCoordinatesValue_def Let_def split: option.splits)

lemma hideSuggestionsDropdown_frame [simp]:
  "stored_value (hideSuggestionsDropdown w) = stored_value w"
  "started (hideSuggestionsDropdown w) = started w"
  "properties (hideSuggestionsDropdown w) = properties w"
  "metadata_properties (hideSuggestionsDropdown w) = metadata_properties w"
  "textbox_value (hideSuggestionsDropdown w) = textbox_value w"
  "onChange_log (hideSuggestionsDropdown w) = onChange_log w"
  "console_errors (hideSuggestionsDropdown w) = console_errors w"
  "marker (hideSuggestionsDropdown w) = marker w"
  "gmap (hideSuggestionsDropdown w) = gmap w"
  "timers (hideSuggestionsDropdown w) = timers w"
  "typingTimer (hideSuggestionsDropdown w) = typingTimer w"
  "next_timer (hideSuggestionsDropdown w) = next_timer w"
  "owned (hideSuggestionsDropdown w) = owned w"
  "fetch_calls (hideSuggestionsDropdown w) = fetch_calls w"
  "suggestions (hideSuggestionsDropdown w) = suggestions w"
  "sessionToken (hideSuggestionsDropdown w) = sessionToken w"
  by (simp_all add: hideSuggestionsDropdown_def Let_def split: option.splits)

lemma clearCoordinates_frame [simp]:
  "started (clearCoordinates rt w) = started w"
  "timers (clearCoordinates rt w) = timers w"
  "typingTimer (clearCoordinates rt w) = typingTimer w"
  "next_timer (clearCoordinates rt w) = next_timer w"
  "owned (clearCoordinates rt w) = owned w"
  "fetch_calls (clearCoordinates rt w) = fetch_calls w"
  "suggestions (clearCoordinates rt w) = suggestions w"
  "sessionToken (clearCoordinates rt w) = sessionToken w"
  by (simp_all add: clearCoordinates_def Let_def)

lemma showSuggestionsDropdown_frame:
  assumes "showSuggestionsDropdown w ss = Returned w' \<or> showSuggestionsDropdown w ss = Threw w'"
  shows "timers w' = timers w"
    and "typingTimer w' = typingTimer w"
    and "next_timer w' = next_timer w"
    and "owned w' = owned w"
    and "fetch_calls w' = fetch_calls w"
    and "suggestions w' = suggestions w"
  using assms
  by (auto simp add: showSuggestionsDropdown_def createSuggestionsDropdown_def Let_def
      split: option.splits if_splits completion.splits)

lemma suspend_frame [simp]:
  "timers (suspend w p) = timers w"
  "typingTimer (suspend w p) = typingTimer w"
  "next_timer (suspend w p) = next_timer w"
  "owned (suspend w p) = owned w"
  "fetch_calls (suspend w p) = fetch_calls w"
  "suggestions (suspend w p) = suggestions w"
  "sessionToken (suspend w p) = sessionToken w"
  by (simp_all add: suspend_def)

lemma settle_frame [simp]:
  "timers (settle w r) = timers w"
  "typingTimer (settle w r) = typingTimer w"
  "next_timer (settle w r) = next_timer w"
  "owned (settle w r) = owned w"
  "fetch_calls (settle w r) = fetch_calls w"
  "suggestions (settle w r) = suggestions w"
  "sessionToken (settle w r) = sessionToken w"
  by (simp_all add: settle_def)

lemma requestSuggestions_frame [simp]:
  "timers (requestSuggestions w i) = timers w"
  "typingTimer (requestSuggestions w i) = typingTimer w"
  "next_timer (requestSuggestions w i) = next_timer w"
  "owned (requestSuggestions w i) = owned w"
  "fetch_calls (requestSuggestions w i) = fetch_calls w"
  "suggestions (requestSuggestions w i) = suggestions w"
  by (simp_all add: requestSuggestions_def Let_def split: option.splits)

lemma fetchAutocompleteSuggestions_frame [simp]:
  "timers (fetchAutocompleteSuggestions w i) = timers w"
  "typingTimer (fetchAutocompleteSuggestions w i) = typingTimer w"
  "next_timer (fetchAutocompleteSuggestions w i) = next_timer w"
  "owned (fetchAutocompleteSuggestions w i) = owned w"
  "fetch_calls (fetchAutocompleteSuggestions w i) = fetch_calls w @ [i]"
  "suggestions (fetchAutocompleteSuggestions w i) = suggestions w"
  by (simp_all add: fetchAutocompleteSuggestions_def Let_def)

lemma libraryLoaded_frame [simp]:
  "timers (libraryLoaded w i) = timers w"
  "typingTimer (libraryLoaded w i) = typingTimer w"
  "next_timer (libraryLoaded w i) = next_timer w"
  "owned (libraryLoaded w i) = owned w"
  "fetch_calls (libraryLoaded w i) = fetch_calls w"
  "suggestions (libraryLoaded w i) = suggestions w"
  by (simp_all add: libraryLoaded_def)

lemma suggestionsArrived_frame [simp]:
  "timers (suggestionsArrived w ss) = timers w"
  "typingTimer (suggestionsArrived w ss) = typingTimer w"
  "next_timer (suggestionsArrived w ss) = next_timer w"
  "owned (suggestionsArrived w ss) = owned w"
  "fetch_calls (suggestionsArrived w ss) = fetch_calls w"
  "suggestions (suggestionsArrived w ss) = Some ss"
proof -
  let ?w = "w\<lparr>suggestions := Some ss\<rparr>"
  show "timers (suggestionsArrived w ss) = timers w"
    using showSuggestionsDropdown_frame(1) [of ?w ss]
    by (cases "showSuggestionsDropdown ?w ss") (simp_all add: suggestionsArrived_def fetchFailed_def)
  show "typingTimer (suggestionsArrived w ss) = typingTimer w"
    using showSuggestionsDropdown_frame(2) [of ?w ss]
    by (cases "showSuggestionsDropdown ?w ss") (simp_all add: suggestionsArrived_def fetchFailed_def)
  show "next_timer (suggestionsArrived w ss) = next_timer w"
    using showSuggestionsDropdown_frame(3) [of ?w ss]
    by (cases "showSuggestionsDropdown ?w ss") (simp_all add: suggestionsArrived_def fetchFailed_def)
  show "owned (suggestionsArrived w ss) = owned w"
    using showSuggestionsDropdown_frame(4) [of ?w ss]
    by (cases "showSuggestionsDropdown ?w ss") (simp_all add: suggestionsArrived_def fetchFailed_def)
  show "fetch_calls (suggestionsArrived w ss) = fetch_calls w"
    using showSuggestionsDropdown_frame(5) [of ?w ss]
    by (cases "showSuggestionsDropdown ?w ss") (simp_all add: suggestionsArrived_def fetchFailed_def)
  show "suggestions (suggestionsArrived w ss) = Some ss"
    using showSuggestionsDropdown_frame(6) [of ?w ss]
    by (cases "showSuggestionsDropdown ?w ss") (simp_all add: suggestionsArrived_def fetchFailed_def)
qed

lemma fetchFailed_frame [simp]:
  "timers (fetchFailed w) = timers w"
  "typingTimer (fetchFailed w) = typingTimer w"
  "next_timer (fetchFailed w) = next_timer w"
  "owned (fetchFailed w) = owned w"
  "fetch_calls (fetchFailed w) = fetch_calls w"
  "suggestions (fetchFailed w) = suggestions w"
  by (simp_all add: fetchFailed_def)

lemma placeFailed_frame [simp]:
  "timers (placeFailed w) = timers w"
  "typingTimer (placeFailed w) = typingTimer w"
  "next_timer (placeFailed w) = next_timer w"
  "owned (placeFailed w) = owned w"
  "fetch_calls (placeFailed w) = fetch_calls w"
  "suggestions (placeFailed w) = suggestions w"
  by (simp_all add: placeFailed_def)

lemma selectSuggestion_frame [simp]:
  "timers (selectSuggestion w i) = timers w"
  "typingTimer (selectSuggestion w i) = typingTimer w"
  "next_timer (selectSuggestion w i) = next_timer w"
  "owned (selectSuggestion w i) = owned w"
  "fetch_calls (selectSuggestion w i) = fetch_calls w"
  "suggestions (selectSuggestion w i) = suggestions w"
  by (simp_all add: selectSuggestion_def split: option.splits)

lemma placeFetched_frame [simp]:
  "started (placeFetched rt w pl) = started w"
  "timers (placeFetched rt w pl) = timers w"
  "typingTimer (placeFetched rt w pl) = typingTimer w"
  "next_timer (placeFetched rt w pl) = next_timer w"
  "owned (placeFetched rt w pl) = owned w"
  "fetch_calls (placeFetched rt w pl) = fetch_calls w"
  "suggestions (placeFetched rt w pl) = suggestions w"
  by (simp_all add: placeFetched_def Let_def split: option.splits)

lemma rightClickHandler_frame [simp]:
  "started (rightClickHandler rt w l) = started w"
  "timers (rightClickHandler rt w l) = timers w"
  "typingTimer (rightClickHandler rt w l) = typingTimer w"
  "next_timer (rightClickHandler rt w l) = next_timer w"
  "owned (rightClickHandler rt w l) = owned w"
  "fetch_calls (rightClickHandler rt w l) = fetch_calls w"
  "suggestions (rightClickHandler rt w l) = suggestions w"
  by (simp_all add: rightClickHandler_def)

lemma scriptLoadedHandler_frame [simp]:
  "timers (scriptLoadedHandler rt w) = timers w"
  "typingTimer (scriptLoadedHandler rt w) = typingTimer w"
  "next_timer (scriptLoadedHandler rt w) = next_timer w"
  "fetch_calls (scriptLoadedHandler rt w) = fetch_calls w"
  "suggestions (scriptLoadedHandler rt w) = suggestions w"
  by (simp_all add: scriptLoadedHandler_def createGoogleMapsElement_def
      setupCustomAutocomplete_def Let_def)

lemma keyupHandler_frame [simp]:
  "owned (keyupHandler w v) = owned w"
  "fetch_calls (keyupHandler w v) = fetch_calls w"
  "suggestions (keyupHandler w v) = suggestions w"
  "now (keyupHandler w v) = now w"
  by (simp_all add: keyupHandler_def setTimeout_def clearTimeout_def Let_def
      split: option.splits)

lemma hasCoordinates_absent:
  "\<not> hasCoordinates rt (w\<lparr>stored_value := JNull\<rparr>)"
  "\<not> hasCoordinates rt
       (w\<lparr>stored_value := JObject [(''latitude'', JNull), (''longitude'', JNull)]\<rparr>)"
  by (simp_all add: hasCoordinates_def)

lemma setCoordinatesValue_absent:
  assumes "started w"
  shows "stored_value (setCoordinatesValue rt w None) =
           (if isComplexType w JUndefined
            then JObject [(''latitude'', JNull), (''longitude'', JNull)] else JNull)"
    and "textbox_value (setCoordinatesValue rt w None) =
           (if isComplexType w JUndefined
            then JObject [(''latitude'', JNull), (''longitude'', JNull)] else JString [])"
    and "marker w = None \<Longrightarrow> marker (setCoordinatesValue rt w None) = None"
  using assms
  by (simp_all add: setCoordinatesValue_def marker_setValueAttr_invalid hasCoordinates_absent)

section \<open>The timer slot and the runs of the event loop\<close>

lemma timer_inv_frame:
  "timers w' = timers w \<Longrightarrow> typingTimer w' = typingTimer w \<Longrightarrow> next_timer w' = next_timer w \<Longrightarrow>
   timer_inv w' = timer_inv w"
  by (simp add: timer_inv_def split: option.splits)

lemma fold_fetch_frame [simp]:
  "timers (fold (\<lambda>(i, due, v). \<lambda>w'. fetchAutocompleteSuggestions w' v) ts w) = timers w"
  "typingTimer (fold (\<lambda>(i, due, v). \<lambda>w'. fetchAutocompleteSuggestions w' v) ts w) = typingTimer w"
  "next_timer (fold (\<lambda>(i, due, v). \<lambda>w'. fetchAutocompleteSuggestions w' v) ts w) = next_timer w"
  "owned (fold (\<lambda>(i, due, v). \<lambda>w'. fetchAutocompleteSuggestions w' v) ts w) = owned w"
  "suggestions (fold (\<lambda>(i, due, v). \<lambda>w'. fetchAutocompleteSuggestions w' v) ts w) = suggestions w"
  "fetch_calls (fold (\<lambda>(i, due, v). \<lambda>w'. fetchAutocompleteSuggestions w' v) ts w) =
     fetch_calls w @ map (\<lambda>(i, due, v). v) ts"
  by (induction ts arbitrary: w; simp add: case_prod_beta)+

lemma advance_frame [simp]:
  "typingTimer (advance w d) = typingTimer w"
  "next_timer (advance w d) = next_timer w"
  "owned (advance w d) = owned w"
  "suggestions (advance w d) = suggestions w"
  "timers (advance w d) = filter (\<lambda>(i, due, v). \<not> due \<le> now w + d) (timers w)"
  "fetch_calls (advance w d) =
     fetch_calls w @ map (\<lambda>(i, due, v). v) (filter (\<lambda>(i, due, v). due \<le> now w + d) (timers w))"
  by (simp_all add: advance_def Let_def)

lemma timer_inv_keyup:
  assumes "timer_inv w"
  shows "timers (keyupHandler w v) = [(next_timer w, now w + typingDelay, v)]"
    and "typingTimer (keyupHandler w v) = Some (next_timer w)"
    and "timer_inv (keyupHandler w v)"
  using assms
  by (auto simp add: timer_inv_def keyupHandler_def setTimeout_def clearTimeout_def Let_def
      split: option.splits list.splits)

lemma timer_inv_advance: "timer_inv w \<Longrightarrow> timer_inv (advance w d)"
  by (auto simp add: timer_inv_def split: option.splits list.splits)

lemma destroy_timers:
  assumes "timer_inv w"
  shows "timers (destroy w) = []" and "typingTimer (destroy w) = None"
    and "next_timer (destroy w) = next_timer w"
  using assms
  by (auto simp add: timer_inv_def destroy_def clearTimeout_def Let_def
      split: option.splits list.splits)

lemma destroy_fields [simp]:
  "owned (destroy w) = []"
  "fetch_calls (destroy w) = fetch_calls w"
  "suggestions (destroy w) = None"
  "sessionToken (destroy w) = None"
  "suggestionsDropdown (destroy w) = None"
  "placesLibrary (destroy w) = False"
  by (simp_all add: destroy_def clearTimeout_def Let_def split: option.splits)

lemma timer_inv_destroy: "timer_inv w \<Longrightarrow> timer_inv (destroy w)"
  by (simp add: timer_inv_def destroy_timers)

lemma step_timers_frame:
  assumes "e \<noteq> Destroy" and "\<forall>v. e \<noteq> Keyup v" and "\<forall>d. e \<noteq> Advance d"
  shows "timers (step rt w e) = timers w"
    and "typingTimer (step rt w e) = typingTimer w"
    and "next_timer (step rt w e) = next_timer w"
  using assms by (cases e; simp split: option.splits pending.splits)+

lemma timer_inv_step: "timer_inv w \<Longrightarrow> timer_inv (step rt w e)"
proof -
  assume inv: "timer_inv w"
  show ?thesis
  proof (cases "e = Destroy \<or> (\<exists>v. e = Keyup v) \<or> (\<exists>d. e = Advance d)")
    case True
    with inv show ?thesis
      by (auto simp add: timer_inv_keyup timer_inv_advance timer_inv_destroy)
  next
    case False
    then have "timer_inv (step rt w e) = timer_inv w"
      by (intro timer_inv_frame step_timers_frame) simp_all
    with inv show ?thesis by simp
  qed
qed

lemma timer_inv_run: "timer_inv w \<Longrightarrow> timer_inv (run rt w es)"
  by (induction es arbitrary: w) (simp_all add: timer_inv_step)

lemma timer_inv_postCreate: "timer_inv (postCreate req ro props meta_props coords zoom0)"
  by (simp add: timer_inv_def postCreate_def)

lemma run_append: "run rt w (es @ es') = run rt (run rt w es) es'"
  by (induction es arbitrary: w) simp_all

lemma burst_fires_once:
  assumes "timer_inv w" and "KeyupHandler \<in> set (owned w)"
    and "\<forall>(gap, k') \<in> set rest. gap < typingDelay" and "typingDelay \<le> d"
  shows "fetch_calls (run rt w (type_burst k rest @ [Advance d])) =
           fetch_calls w @ [last_text k rest]"
  using assms
proof (induction rest arbitrary: w k)
  case Nil
  then show ?case by (simp add: timer_inv_keyup)
next
  case (Cons p rest)
  obtain gap k' where p: "p = (gap, k')" by (cases p)
  let ?w1 = "keyupHandler w k"
  let ?w2 = "advance ?w1 gap"
  from Cons.prems p have gap: "gap < typingDelay" by simp
  have inv1: "timer_inv ?w1" using Cons.prems(1) by (simp add: timer_inv_keyup)
  have inv2: "timer_inv ?w2" using inv1 by (rule timer_inv_advance)
  have own2: "KeyupHandler \<in> set (owned ?w2)" using Cons.prems(2) by simp
  have calls2: "fetch_calls ?w2 = fetch_calls w"
    using Cons.prems(1) gap by (simp add: timer_inv_keyup)
  have rest: "\<forall>(gap, k') \<in> set rest. gap < typingDelay" using Cons.prems(3) by simp
  have "fetch_calls (run rt ?w2 (type_burst k' rest @ [Advance d])) =
          fetch_calls ?w2 @ [last_text k' rest]"
    using inv2 own2 rest Cons.prems(4) by (rule Cons.IH)
  with calls2 p Cons.prems(2) show ?case by simp
qed

lemma step_suggestions_frame:
  "\<not> replaces_suggestions e \<Longrightarrow> suggestions (step rt w e) = suggestions w"
  by (cases e; simp split: option.splits pending.splits)

lemma run_suggestions_frame:
  "\<forall>e \<in> set es. \<not> replaces_suggestions e \<Longrightarrow> suggestions (run rt w es) = suggestions w"
  by (induction es arbitrary: w) (simp_all add: step_suggestions_frame)

lemma step_after_destroy:
  assumes "owned w = []" and "timers w = []"
  shows "owned (step rt w e) = []" and "timers (step rt w e) = []"
    and "fetch_calls (step rt w e) = fetch_calls w"
  using assms
  by (cases e; simp add: destroy_def clearTimeout_def Let_def split: option.splits pending.splits)+

lemma run_after_destroy:
  assumes "owned w = []" and "timers w = []"
  shows "timers (run rt w es) = [] \<and> fetch_calls (run rt w es) = fetch_calls w"
  using assms
  by (induction es arbitrary: w) (simp_all add: step_after_destroy)

section \<open>Validity of the value\<close>

text \<open>
  Claim C8, where the code departs from it. The claim wants a required field to be
  invalid whenever its value lacks valid coordinates, that is coordinates that are
  present, numeric and not zero. \<^verbatim>\<open>isValid()\<close> hands the question to
  \<^verbatim>\<open>_hasCoordinates()\<close>, whose string branch only counts the pieces around the comma:
  a required field of the delimited format with the value \<^verbatim>\<open>"0,0"\<close> is valid, while a
  required field holding the object with latitude 0 and longitude 0 is not.
\<close>

theorem isValid_required_zero_string:
  "isValid rt
     (w\<lparr>required := True, stored_value := JString ''0,0'', properties := None,
        metadata_properties := None\<rparr>) \<and>
   \<not> isValid rt
     (w\<lparr>required := True,
        stored_value :=
          JObject [(''latitude'', JNumber (Num 0)), (''longitude'', JNumber (Num 0))]\<rparr>)"
  by (simp add: isValid_def hasCoordinates_def isComplexType_def isNaN_def)

text \<open>
  Claim C4, where the code departs from it. The claim wants a value with a zero or
  non-numeric component to count as no coordinates in both formats. For a string value of
  an editor without a property list, \<^verbatim>\<open>_hasCoordinates\<close> only
  counts the pieces around the comma: \<^verbatim>\<open>"0,0"\<close> and
  \<^verbatim>\<open>"abc,def"\<close> have coordinates, whatever else the editor holds,
  and a field with the value \<^verbatim>\<open>"0,0"\<close> is valid even when it is
  required.
\<close>

theorem hasCoordinates_zero_string:
  "hasCoordinates rt
     (w\<lparr>stored_value := JString ''0,0'', properties := None, metadata_properties := None\<rparr>) \<and>
   hasCoordinates rt
     (w\<lparr>stored_value := JString ''abc,def'', properties := None,
        metadata_properties := None\<rparr>) \<and>
   isValid rt
     (w\<lparr>stored_value := JString ''0,0'', properties := None, metadata_properties := None\<rparr>)"
  by (simp add: isValid_def hasCoordinates_def isComplexType_def)

section \<open>Writing coordinates\<close>

text \<open>
  Claim C9. Before the widget has started, \<^verbatim>\<open>_setCoordinatesValue\<close>
  returns at once for every argument, \<^verbatim>\<open>null\<close> included, and leaves
  the whole state as it was. A right click on the map and the commit of a suggestion then
  move the marker and the map at most: the stored value stays and
  \<^verbatim>\<open>onChange\<close> is not called.
\<close>

theorem setCoordinatesValue_before_startup:
  "\<not> started w \<Longrightarrow>
     setCoordinatesValue rt w location = w \<and>
     stored_value (rightClickHandler rt w l) = stored_value w \<and>
     onChange_log (rightClickHandler rt w l) = onChange_log w \<and>
     stored_value (placeFetched rt w place_location) = stored_value w \<and>
     onChange_log (placeFetched rt w place_location) = onChange_log w"
  by (simp add: setCoordinatesValue_def rightClickHandler_def placeFetched_def Let_def
      split: option.splits)

text \<open>The editor as created has not started: a pick at (40, -73) writes nothing.\<close>

theorem setCoordinatesValue_before_startup_witness:
  "\<not> started delimited_editor \<and>
   setCoordinatesValue sample_runtime delimited_editor
     (Some \<lparr>lat = JNumber (Num 40), lng = JNumber (Num (- 73))\<rparr>) = delimited_editor \<and>
   stored_value (rightClickHandler sample_runtime delimited_editor
     \<lparr>lat = JNumber (Num 40), lng = JNumber (Num (- 73))\<rparr>) = JString []"
  using setCoordinatesValue_before_startup [of delimited_editor sample_runtime
      "Some \<lparr>lat = JNumber (Num 40), lng = JNumber (Num (- 73))\<rparr>"
      "\<lparr>lat = JNumber (Num 40), lng = JNumber (Num (- 73))\<rparr>" None]
  by (simp add: delimited_editor_def postCreate_def)

text \<open>
  Claim C10. When \<^verbatim>\<open>lng()\<close> or \<^verbatim>\<open>lat()\<close> of
  a location yields \<^verbatim>\<open>undefined\<close>,
  \<^verbatim>\<open>_setCoordinatesValue\<close> writes no value: on a started widget the
  only change is the message on \<^verbatim>\<open>console.error\<close> (the accessors
  are read past the \<^verbatim>\<open>_started\<close> guard; a widget that has not
  started changes nothing at all).
\<close>

theorem setCoordinatesValue_missing_coordinate:
  "lng l = JUndefined \<or> lat l = JUndefined \<Longrightarrow>
     setCoordinatesValue rt w (Some l) =
       (if started w
        then w\<lparr>console_errors := console_errors w @ [missing_coordinate_message]\<rparr>
        else w)"
  by (auto simp add: setCoordinatesValue_def Let_def)

text \<open>A location with a latitude and no longitude: the value stays, the error is logged.\<close>

theorem setCoordinatesValue_missing_coordinate_witness:
  "stored_value (setCoordinatesValue sample_runtime (delimited_editor\<lparr>started := True\<rparr>)
      (Some \<lparr>lat = JNumber (Num 40), lng = JUndefined\<rparr>)) = JString [] \<and>
   console_errors (setCoordinatesValue sample_runtime (delimited_editor\<lparr>started := True\<rparr>)
      (Some \<lparr>lat = JNumber (Num 40), lng = JUndefined\<rparr>)) = [missing_coordinate_message]"
  using setCoordinatesValue_missing_coordinate
    [of "\<lparr>lat = JNumber (Num 40), lng = JUndefined\<rparr>" sample_runtime
        "delimited_editor\<lparr>started := True\<rparr>"]
  by (simp add: delimited_editor_def postCreate_def)

text \<open>
  Claim C5, counterexample. The claim has a cleared editor of the delimited format return
  the empty string. A started editor with the value \<^verbatim>\<open>"40,-73"\<close>
  whose clear icon is clicked holds \<^verbatim>\<open>null\<close>.
\<close>

theorem clear_delimited_gives_null:
  "stored_value (run sample_runtime delimited_editor
      [Startup, ScriptLoaded, SetValue (JString ''40,-73''), ClearClick]) = JNull \<and>
   stored_value (run sample_runtime delimited_editor
      [Startup, ScriptLoaded, SetValue (JString ''40,-73''), ClearClick]) \<noteq> JString []"
  by code_simp

text \<open>
  Claim C5, amended. On a started widget, writing absent coordinates stores the object
  \<^verbatim>\<open>{latitude: null, longitude: null}\<close> when
  \<^verbatim>\<open>_isComplexType()\<close> holds and \<^verbatim>\<open>null\<close>
  otherwise; the clear action does so, removes the marker, and leaves the empty string in
  the hidden text box of the delimited format only.
\<close>

theorem absent_value_serialization:
  "started w \<Longrightarrow>
     stored_value (setCoordinatesValue rt w None) =
       (if isComplexType w JUndefined
        then JObject [(''latitude'', JNull), (''longitude'', JNull)] else JNull) \<and>
     stored_value (clearCoordinates rt w) =
       (if isComplexType w JUndefined
        then JObject [(''latitude'', JNull), (''longitude'', JNull)] else JNull) \<and>
     textbox_value (clearCoordinates rt w) =
       (if isComplexType w JUndefined
        then JObject [(''latitude'', JNull), (''longitude'', JNull)] else JString []) \<and>
     marker (clearCoordinates rt w) = None"
proof -
  assume s: "started w"
  define w2 where "w2 = hideSuggestionsDropdown (w\<lparr>searchTextbox_value := []\<rparr>)"
  define w3 where "w3 = (if marker w2 \<noteq> None then w2\<lparr>marker := None\<rparr> else w2)"
  have clear: "clearCoordinates rt w = setCoordinatesValue rt w3 None"
    by (simp add: clearCoordinates_def Let_def w2_def w3_def)
  have s3: "started w3" using s by (simp add: w3_def w2_def)
  have m3: "marker w3 = None" by (simp add: w3_def)
  have c3: "isComplexType w3 JUndefined = isComplexType w JUndefined"
    by (rule isComplexType_cong) (simp_all add: w3_def w2_def)
  show ?thesis
    using s setCoordinatesValue_absent [OF s3, of rt] m3
    by (simp add: clear c3 setCoordinatesValue_absent [OF s])
qed

text \<open>The two formats, each on a started editor that is cleared.\<close>

theorem absent_value_serialization_witness:
  "started (structured_editor\<lparr>started := True\<rparr>) \<and>
   started (delimited_editor\<lparr>started := True\<rparr>) \<and>
   stored_value (clearCoordinates sample_runtime (structured_editor\<lparr>started := True\<rparr>)) =
     JObject [(''latitude'', JNull), (''longitude'', JNull)] \<and>
   stored_value (clearCoordinates sample_runtime (delimited_editor\<lparr>started := True\<rparr>)) = JNull \<and>
   textbox_value (clearCoordinates sample_runtime (delimited_editor\<lparr>started := True\<rparr>)) =
     JString []"
  using absent_value_serialization [of "structured_editor\<lparr>started := True\<rparr>" sample_runtime]
    absent_value_serialization [of "delimited_editor\<lparr>started := True\<rparr>" sample_runtime]
  by (simp add: structured_editor_def delimited_editor_def postCreate_def isComplexType_def)

section \<open>The marker\<close>

text \<open>
  Claim C3, where the code departs from it. The claim wants a marker after a render
  exactly when the rendered value has valid coordinates, an existing marker being removed
  otherwise. The host gives a structured editor with a map the value (1, 2) and then the
  absent pair: \<^verbatim>\<open>_setValueAttr\<close> skips the render because a marker exists (line 178), so
  the marker of (1, 2) is still there while the value has no coordinates; and rendering
  once more with \<^verbatim>\<open>_refreshMarkerLocation\<close> keeps the marker, since its branch for a
  value without coordinates (lines 735-739) only recentres the map.
\<close>

theorem marker_survives_invalid_value:
  "marker (run sample_runtime structured_editor
      [ScriptLoaded,
       SetValue (JObject [(''latitude'', JNumber (Num 1)), (''longitude'', JNumber (Num 2))]),
       SetValue (JObject [(''latitude'', JNull), (''longitude'', JNull)])]) =
     Some \<lparr>lat = JNumber (Num 1), lng = JNumber (Num 2)\<rparr> \<and>
   \<not> hasCoordinates sample_runtime (run sample_runtime structured_editor
      [ScriptLoaded,
       SetValue (JObject [(''latitude'', JNumber (Num 1)), (''longitude'', JNumber (Num 2))]),
       SetValue (JObject [(''latitude'', JNull), (''longitude'', JNull)])]) \<and>
   marker (refreshMarkerLocation sample_runtime (run sample_runtime structured_editor
      [ScriptLoaded,
       SetValue (JObject [(''latitude'', JNumber (Num 1)), (''longitude'', JNumber (Num 2))]),
       SetValue (JObject [(''latitude'', JNull), (''longitude'', JNull)])])) =
     Some \<lparr>lat = JNumber (Num 1), lng = JNumber (Num 2)\<rparr>"
  by code_simp

section \<open>Suggestions and the session token\<close>

text \<open>
  Claim C1, counterexample. The claim has the response to an older search discarded once a
  newer search was issued. The search for \<^verbatim>\<open>"a"\<close> is request 1, the
  search for \<^verbatim>\<open>"ab"\<close> request 2; the answer to request 2 arrives
  first, the answer to request 1 after it: the list and the dropdown show the answer to
  \<^verbatim>\<open>"a"\<close>.
\<close>

theorem stale_response_overwrites:
  "map snd (in_flight (run sample_runtime delimited_editor
      [ScriptLoaded, Keyup ''a'', Advance 200, LibraryLoaded 0, Keyup ''ab'', Advance 200])) =
     [AwaitSuggestions ''a'' 0 (Some \<lparr>lat = JNumber (Num 59), lng = JNumber (Num 18)\<rparr>),
      AwaitSuggestions ''ab'' 0 (Some \<lparr>lat = JNumber (Num 59), lng = JNumber (Num 18)\<rparr>)] \<and>
   suggestions (run sample_runtime delimited_editor
      [ScriptLoaded, Keyup ''a'', Advance 200, LibraryLoaded 0, Keyup ''ab'', Advance 200,
       SuggestionsArrived 2 [Suggestion ''Abbey Road'' 2],
       SuggestionsArrived 1 [Suggestion ''Aachen'' 1]]) = Some [Suggestion ''Aachen'' 1] \<and>
   suggestionsDropdown (run sample_runtime delimited_editor
      [ScriptLoaded, Keyup ''a'', Advance 200, LibraryLoaded 0, Keyup ''ab'', Advance 200,
       SuggestionsArrived 2 [Suggestion ''Abbey Road'' 2],
       SuggestionsArrived 1 [Suggestion ''Aachen'' 1]]) =
     Some \<lparr>display = ''block'', items = [''Aachen'']\<rparr>"
  by code_simp

text \<open>
  Claim C1, amended. Responses are applied in the order of their arrival, with no regard
  to the order of the requests: when the response to any request in flight arrives, its
  suggestions become the list, and they stay the list until the next response arrives
  or the widget is destroyed. The list is that of the response that arrived last.
\<close>

theorem last_arrival_wins:
  assumes "map_of (in_flight w) rid = Some (AwaitSuggestions input t origin)"
    and "\<forall>e \<in> set es. \<not> replaces_suggestions e"
  shows "suggestions (run rt w (SuggestionsArrived rid ss # es)) = Some ss"
  using assms by (simp add: run_suggestions_frame)

text \<open>
  With the requests for \<^verbatim>\<open>"a"\<close> and \<^verbatim>\<open>"ab"\<close>
  both in flight, the answer to the older one is applied and survives a further keystroke
  and a click in the document.
\<close>

theorem last_arrival_wins_witness:
  "map_of (in_flight (run sample_runtime delimited_editor
      [ScriptLoaded, Keyup ''a'', Advance 200, LibraryLoaded 0, Keyup ''ab'', Advance 200])) 1 =
     Some (AwaitSuggestions ''a'' 0 (Some \<lparr>lat = JNumber (Num 59), lng = JNumber (Num 18)\<rparr>)) \<and>
   suggestions (run sample_runtime
      (run sample_runtime delimited_editor
         [ScriptLoaded, Keyup ''a'', Advance 200, LibraryLoaded 0, Keyup ''ab'', Advance 200])
      (SuggestionsArrived 1 [Suggestion ''Aachen'' 1] # [Keyup ''abc'', DocumentClick True])) =
     Some [Suggestion ''Aachen'' 1]"
proof -
  have p: "map_of (in_flight (run sample_runtime delimited_editor
      [ScriptLoaded, Keyup ''a'', Advance 200, LibraryLoaded 0, Keyup ''ab'', Advance 200])) 1 =
     Some (AwaitSuggestions ''a'' 0 (Some \<lparr>lat = JNumber (Num 59), lng = JNumber (Num 18)\<rparr>))"
    by code_simp
  have q: "\<forall>e \<in> set [Keyup ''abc'', DocumentClick True]. \<not> replaces_suggestions e"
    by simp
  show ?thesis
    using p last_arrival_wins [OF p q, of sample_runtime "[Suggestion ''Aachen'' 1]"] by simp
qed

text \<open>
  Claim C2, where the code departs from it. The claim wants a search after the clear
  action to use a fresh session token. \<^verbatim>\<open>_clearCoordinates\<close> writes
  neither the token nor the suggestion list: with a click on the clear icon between the
  searches for \<^verbatim>\<open>"a"\<close> and \<^verbatim>\<open>"b"\<close>, both
  requests carry token 0.
\<close>

theorem clear_keeps_session_token:
  "map snd (in_flight (run sample_runtime delimited_editor
      [Startup, ScriptLoaded, Keyup ''a'', Advance 200, LibraryLoaded 0, ClearClick,
       Keyup ''b'', Advance 200])) =
     [AwaitSuggestions ''a'' 0 (Some \<lparr>lat = JNumber (Num 59), lng = JNumber (Num 18)\<rparr>),
      AwaitSuggestions ''b'' 0 (Some \<lparr>lat = JNumber (Num 59), lng = JNumber (Num 18)\<rparr>)] \<and>
   sessionToken (clearCoordinates rt w) = sessionToken w \<and>
   suggestions (clearCoordinates rt w) = suggestions w"
proof -
  have "map snd (in_flight (run sample_runtime delimited_editor
      [Startup, ScriptLoaded, Keyup ''a'', Advance 200, LibraryLoaded 0, ClearClick,
       Keyup ''b'', Advance 200])) =
     [AwaitSuggestions ''a'' 0 (Some \<lparr>lat = JNumber (Num 59), lng = JNumber (Num 18)\<rparr>),
      AwaitSuggestions ''b'' 0 (Some \<lparr>lat = JNumber (Num 59), lng = JNumber (Num 18)\<rparr>)]"
    by code_simp
  then show ?thesis by simp
qed

section \<open>Destroy and the debounce\<close>

text \<open>
  Claim C6, counterexample. The claim has no callback in flight change the widget after
  \<^verbatim>\<open>destroy\<close>. A response that arrives after
  \<^verbatim>\<open>destroy\<close> sets the suggestion list that
  \<^verbatim>\<open>destroy\<close> had nulled; a places library that arrives after
  \<^verbatim>\<open>destroy\<close> creates a session token and sends the request.
\<close>

theorem response_after_destroy_applied:
  "suggestions (run sample_runtime delimited_editor
      [ScriptLoaded, Keyup ''a'', Advance 200, LibraryLoaded 0, Destroy]) = None \<and>
   suggestions (run sample_runtime delimited_editor
      [ScriptLoaded, Keyup ''a'', Advance 200, LibraryLoaded 0, Destroy,
       SuggestionsArrived 1 [Suggestion ''Aachen'' 1]]) = Some [Suggestion ''Aachen'' 1] \<and>
   sessionToken (run sample_runtime delimited_editor
      [ScriptLoaded, Keyup ''a'', Advance 200, Destroy, LibraryLoaded 0]) = Some 0 \<and>
   map snd (in_flight (run sample_runtime delimited_editor
      [ScriptLoaded, Keyup ''a'', Advance 200, Destroy, LibraryLoaded 0])) =
     [AwaitSuggestions ''a'' 0 (Some \<lparr>lat = JNumber (Num 59), lng = JNumber (Num 18)\<rparr>)]"
  by code_simp

text \<open>
  Claim C6, amended. \<^verbatim>\<open>destroy\<close> can be called after any history of
  events, also before the map exists. It cancels the pending debounce timer, gives up the
  handlers, and nulls the dropdown, the session token, the suggestion list and the places
  library. Whatever happens afterwards, no timeout is pending and
  \<^verbatim>\<open>_fetchAutocompleteSuggestions\<close> is not called again.
\<close>

theorem destroy_cancels_debounce:
  "typingTimer (destroy (run rt (postCreate req ro props meta_props coords zoom0) es)) = None \<and>
   timers (destroy (run rt (postCreate req ro props meta_props coords zoom0) es)) = [] \<and>
   owned (destroy (run rt (postCreate req ro props meta_props coords zoom0) es)) = [] \<and>
   suggestionsDropdown (destroy (run rt (postCreate req ro props meta_props coords zoom0) es)) =
     None \<and>
   sessionToken (destroy (run rt (postCreate req ro props meta_props coords zoom0) es)) = None \<and>
   suggestions (destroy (run rt (postCreate req ro props meta_props coords zoom0) es)) = None \<and>
   \<not> placesLibrary (destroy (run rt (postCreate req ro props meta_props coords zoom0) es)) \<and>
   timers (run rt (run rt (postCreate req ro props meta_props coords zoom0) (es @ [Destroy]))
             es') = [] \<and>
   fetch_calls (run rt (run rt (postCreate req ro props meta_props coords zoom0) (es @ [Destroy]))
                  es') =
     fetch_calls (run rt (postCreate req ro props meta_props coords zoom0) es)"
proof -
  let ?w = "run rt (postCreate req ro props meta_props coords zoom0) es"
  have inv: "timer_inv ?w"
    by (simp add: timer_inv_run timer_inv_postCreate)
  have d: "run rt (postCreate req ro props meta_props coords zoom0) (es @ [Destroy]) = destroy ?w"
    by (simp add: run_append)
  have t: "timers (destroy ?w) = []" "typingTimer (destroy ?w) = None"
    using inv by (simp_all add: destroy_timers)
  have "owned (destroy ?w) = []" by simp
  then have after: "timers (run rt (destroy ?w) es') = [] \<and>
      fetch_calls (run rt (destroy ?w) es') = fetch_calls (destroy ?w)"
    using t(1) by (rule run_after_destroy)
  show ?thesis using t after by (simp add: d)
qed

text \<open>
  Destroyed 100 ms after a keystroke, the editor has no timeout left and starts no
  search when the 200 ms are over or when the user types again.
\<close>

theorem destroy_cancels_debounce_witness:
  "timers (run sample_runtime delimited_editor [ScriptLoaded, Keyup ''a'', Advance 100]) =
     [(1, 200, ''a'')] \<and>
   timers (destroy (run sample_runtime delimited_editor
      [ScriptLoaded, Keyup ''a'', Advance 100])) = [] \<and>
   fetch_calls (run sample_runtime
      (run sample_runtime delimited_editor ([ScriptLoaded, Keyup ''a'', Advance 100] @ [Destroy]))
      [Advance 100, Keyup ''ab'', Advance 200]) = []"
proof -
  have a: "timers (run sample_runtime delimited_editor [ScriptLoaded, Keyup ''a'', Advance 100]) =
     [(1, 200, ''a'')]"
    by code_simp
  have b: "fetch_calls (run sample_runtime delimited_editor
      [ScriptLoaded, Keyup ''a'', Advance 100]) = []"
    by code_simp
  show ?thesis
    using a b destroy_cancels_debounce [of sample_runtime True False None None
        sample_coordinates "JString ''10''" "[ScriptLoaded, Keyup ''a'', Advance 100]"
        "[Advance 100, Keyup ''ab'', Advance 200]"]
    unfolding delimited_editor_def by simp
qed

text \<open>
  Claim C7. On an editor whose keyup handler is registered, a keystroke leaves exactly one
  timeout pending, the new one, due 200 ms later. A burst of keystrokes, each less than
  200 ms after the one before, followed by 200 ms or more without a keystroke, makes
  exactly one call of \<^verbatim>\<open>_fetchAutocompleteSuggestions\<close>, with the
  text of the last keystroke.
\<close>

theorem debounce_burst:
  assumes "w = run rt (postCreate req ro props meta_props coords zoom0) es"
    and "KeyupHandler \<in> set (owned w)"
    and "\<forall>(gap, k') \<in> set rest. gap < 200"
    and "200 \<le> d"
  shows "timers (step rt w (Keyup k)) = [(next_timer w, now w + 200, k)] \<and>
         fetch_calls (run rt w (type_burst k rest @ [Advance d])) =
           fetch_calls w @ [last_text k rest]"
proof -
  have inv: "timer_inv w"
    using assms(1) by (simp add: timer_inv_run timer_inv_postCreate)
  have "timers (step rt w (Keyup k)) = [(next_timer w, now w + 200, k)]"
    using inv assms(2) by (simp add: timer_inv_keyup typingDelay_def)
  moreover have "fetch_calls (run rt w (type_burst k rest @ [Advance d])) =
           fetch_calls w @ [last_text k rest]"
    using inv assms(2-4) by (intro burst_fires_once) (simp_all add: typingDelay_def)
  ultimately show ?thesis by simp
qed

text \<open>Five keystrokes 40 ms apart, then 200 ms of silence: one search, for the last text.\<close>

theorem debounce_burst_witness:
  "KeyupHandler \<in> set (owned (run sample_runtime delimited_editor [ScriptLoaded])) \<and>
   fetch_calls (run sample_runtime (run sample_runtime delimited_editor [ScriptLoaded])
      (type_burst ''a'' [(40, ''ab''), (40, ''abc''), (40, ''abcd''), (40, ''abcde'')] @
       [Advance 200])) =
     [''abcde'']"
proof -
  have o: "KeyupHandler \<in> set (owned (run sample_runtime delimited_editor [ScriptLoaded]))"
    by code_simp
  have f: "fetch_calls (run sample_runtime delimited_editor [ScriptLoaded]) = []"
    by code_simp
  have g: "\<forall>(gap, k') \<in> set [(40, ''ab''), (40, ''abc''), (40, ''abcd''), (40::nat, ''abcde'')].
      gap < 200"
    by simp
  have e: "run sample_runtime delimited_editor [ScriptLoaded] =
      run sample_runtime (postCreate True False None None sample_coordinates (JString ''10''))
        [ScriptLoaded]"
    by (simp only: delimited_editor_def)
  have h: "(200::nat) \<le> 200" by simp
  have l: "last_text ''a'' [(40, ''ab''), (40, ''abc''), (40, ''abcd''), (40, ''abcde'')] =
      ''abcde''"
    by simp
  from debounce_burst [OF e o g h, of "''a''"]
  have r: "fetch_calls (run sample_runtime (run sample_runtime delimited_editor [ScriptLoaded])
      (type_burst ''a'' [(40, ''ab''), (40, ''abc''), (40, ''abcd''), (40, ''abcde'')] @
       [Advance 200])) =
     fetch_calls (run sample_runtime delimited_editor [ScriptLoaded]) @
       [last_text ''a'' [(40, ''ab''), (40, ''abc''), (40, ''abcd''), (40, ''abcde'')]]"
    by (rule conjunct2)
  show ?thesis
    unfolding r f l using o by simp
qed

end
